theory Spec2Isabelle
  imports Complex_Main "HOL-Library.Char_ord" "HOL-Library.List_Lexorder"
    "HOL-Library.Sublist"
begin

section \<open>Goodreads ETL pipeline: texts, numbers and decoded cells\<close>

text \<open>
  The pipeline of \<^verbatim>\<open>src/goodreads_etl.py\<close> reads CSV files in chunks with pandas,
  validates each chunk, and loads it into two SQLite tables. A text is the list of the
  bytes of its UTF-8 encoding. A stored text column holds a text or nothing (NULL).
\<close>

type_synonym cell = "string option"

text \<open>Everything the program can raise while it processes a file.\<close>

datatype error =
    ReadError
  | KeyError
  | AttributeError
  | OperationalError
  | UnboundLocalError
  | ZeroDivisionError

section \<open>Rating labels\<close>

text \<open>\<^verbatim>\<open>RATING_MAP\<close>, lines 24 to 27: a dictionary of six labels.\<close>

definition RATING_MAP :: "string \<rightharpoonup> int" where
  "RATING_MAP = map_of
     [(''it was amazing'', 5), (''really liked it'', 4), (''liked it'', 3),
      (''it was ok'', 2), (''did not like it'', 1),
      (''this user marked the book as \"to-read\"'', 0)]"

text \<open>
  \<^verbatim>\<open>str.lower\<close>. The letters A to Z are lowered, and so is the Kelvin sign (U+212A,
  the bytes E2 84 AA), the one character outside ASCII that Python lowers to an ASCII
  letter. Every other character outside ASCII is lowered by Python to characters
  outside ASCII; it is left as it is here, which does not change whether the lowered
  text is a key of \<^verbatim>\<open>RATING_MAP\<close>, the only use that line 71 makes of it.
\<close>

definition lower_char :: "char \<Rightarrow> char" where
  "lower_char c =
     (if 65 \<le> (of_char c :: nat) \<and> (of_char c :: nat) \<le> 90
      then char_of ((of_char c :: nat) + 32) else c)"

fun str_lower :: "string \<Rightarrow> string" where
  "str_lower (a # b # c # s) =
     (if a = CHR 0xE2 \<and> b = CHR 0x84 \<and> c = CHR 0xAA then CHR ''k'' # str_lower s
      else lower_char a # str_lower (b # c # s))"
| "str_lower (a # s) = lower_char a # str_lower s"
| "str_lower [] = []"

text \<open>
  \<^verbatim>\<open>str.strip\<close> removes the white space of Unicode at both ends: the ASCII
  characters 9 to 13, 28 to 32, and U+0085, U+00A0, U+1680, U+2000 to U+200A, U+2028,
  U+2029, U+202F, U+205F and U+3000, here in their UTF-8 bytes.
\<close>

definition ascii_space :: "char \<Rightarrow> bool" where
  "ascii_space c =
     ((9 \<le> (of_char c :: nat) \<and> (of_char c :: nat) \<le> 13)
      \<or> (28 \<le> (of_char c :: nat) \<and> (of_char c :: nat) \<le> 32))"

text \<open>The last byte of one of U+2000 to U+200A, U+2028, U+2029, U+202F after E2 80.\<close>

definition general_space_byte :: "char \<Rightarrow> bool" where
  "general_space_byte c =
     ((128 \<le> (of_char c :: nat) \<and> (of_char c :: nat) \<le> 138)
      \<or> c = CHR 0xA8 \<or> c = CHR 0xA9 \<or> c = CHR 0xAF)"

text \<open>The number of bytes of the white space character that a text begins with, or 0.\<close>

definition space_length :: "string \<Rightarrow> nat" where
  "space_length s =
     (case s of
        [] \<Rightarrow> 0
      | a # r \<Rightarrow>
          (if ascii_space a then 1
           else if (of_char a :: nat) < 128 then 0
           else (case r of
                   [] \<Rightarrow> 0
                 | b # r' \<Rightarrow>
                     (if a = CHR 0xC2 \<and> (b = CHR 0x85 \<or> b = CHR 0xA0) then 2
                      else (case r' of
                              [] \<Rightarrow> 0
                            | c # r'' \<Rightarrow>
                                (if (a = CHR 0xE1 \<and> b = CHR 0x9A \<and> c = CHR 0x80)
                                    \<or> (a = CHR 0xE2 \<and> b = CHR 0x80 \<and> general_space_byte c)
                                    \<or> (a = CHR 0xE2 \<and> b = CHR 0x81 \<and> c = CHR 0x9F)
                                    \<or> (a = CHR 0xE3 \<and> b = CHR 0x80 \<and> c = CHR 0x80)
                                 then 3 else 0))))))"

text \<open>The same for the white space character that a text ends with, read backwards.\<close>

definition space_length_rev :: "string \<Rightarrow> nat" where
  "space_length_rev s =
     (case s of
        [] \<Rightarrow> 0
      | c # r \<Rightarrow>
          (if ascii_space c then 1
           else if (of_char c :: nat) < 128 then 0
           else (case r of
                   [] \<Rightarrow> 0
                 | b # r' \<Rightarrow>
                     (if b = CHR 0xC2 \<and> (c = CHR 0x85 \<or> c = CHR 0xA0) then 2
                      else (case r' of
                              [] \<Rightarrow> 0
                            | a # r'' \<Rightarrow>
                                (if (a = CHR 0xE1 \<and> b = CHR 0x9A \<and> c = CHR 0x80)
                                    \<or> (a = CHR 0xE2 \<and> b = CHR 0x80 \<and> general_space_byte c)
                                    \<or> (a = CHR 0xE2 \<and> b = CHR 0x81 \<and> c = CHR 0x9F)
                                    \<or> (a = CHR 0xE3 \<and> b = CHR 0x80 \<and> c = CHR 0x80)
                                 then 3 else 0))))))"

function strip_with :: "(string \<Rightarrow> nat) \<Rightarrow> string \<Rightarrow> string" where
  "strip_with len s =
     (if len s = 0 \<or> s = [] then s else strip_with len (drop (len s) s))"
  by pat_completeness auto
termination
  by (relation "measure (\<lambda>(len, s). length s)") auto

declare strip_with.simps [simp del]

definition str_strip :: "string \<Rightarrow> string" where
  "str_strip s = rev (strip_with space_length_rev (rev (strip_with space_length s)))"

section \<open>Numbers\<close>

text \<open>
  A number that pandas reads from a text is an integer or a float; a float is written
  here by its exact value, or is one of the two infinities. The grammar is the one of
  the C parser of pandas, which \<^verbatim>\<open>read_csv\<close> and \<^verbatim>\<open>pd.to_numeric\<close> share: blanks, a
  sign, digits with an optional point, an optional exponent, blanks; or one of the
  words for infinity. A literal without point and exponent is an integer.
\<close>

datatype double = Finite rat | PosInf | NegInf

datatype number = IntLit int | FloatLit double

definition is_digit :: "char \<Rightarrow> bool" where
  "is_digit c = (48 \<le> (of_char c :: nat) \<and> (of_char c :: nat) \<le> 57)"

definition is_blank :: "char \<Rightarrow> bool" where
  "is_blank c = ((of_char c :: nat) = 32 \<or> (9 \<le> (of_char c :: nat) \<and> (of_char c :: nat) \<le> 13))"

definition nat_of_digits :: "string \<Rightarrow> nat" where
  "nat_of_digits ds = foldl (\<lambda>a c. 10 * a + ((of_char c :: nat) - 48)) 0 ds"

definition trim_blanks :: "string \<Rightarrow> string" where
  "trim_blanks s = rev (dropWhile is_blank (rev (dropWhile is_blank s)))"

definition split_sign :: "string \<Rightarrow> bool \<times> string" where
  "split_sign s =
     (case s of
        [] \<Rightarrow> (False, [])
      | c # cs \<Rightarrow>
          (if c = CHR ''-'' then (True, cs) else if c = CHR ''+'' then (False, cs)
           else (False, s)))"

definition signed :: "bool \<Rightarrow> nat \<Rightarrow> int" where
  "signed neg n = (if neg then - int n else int n)"

text \<open>The exponent part: nothing, or \<^verbatim>\<open>e\<close> with an optional sign and at least one digit.\<close>

definition exponent_of :: "string \<Rightarrow> int option" where
  "exponent_of s =
     (case s of
        [] \<Rightarrow> Some 0
      | c # cs \<Rightarrow>
          (if c = CHR ''e'' \<or> c = CHR ''E'' then
             (case split_sign cs of
                (neg, ds) \<Rightarrow>
                  (if ds \<noteq> [] \<and> list_all is_digit ds
                   then Some (signed neg (nat_of_digits ds)) else None))
           else None))"

definition scale10 :: "int \<Rightarrow> int \<Rightarrow> rat" where
  "scale10 m e = (if 0 \<le> e then of_int m * 10 ^ nat e else of_int m / 10 ^ nat (- e))"

definition infinity_word :: "string \<Rightarrow> double option" where
  "infinity_word s =
     (if map lower_char s \<in> set [''inf'', ''+inf'', ''infinity'', ''+infinity''] then Some PosInf
      else if map lower_char s \<in> set [''-inf'', ''-infinity''] then Some NegInf
      else None)"

definition parse_number :: "string \<Rightarrow> number option" where
  "parse_number s =
     (case infinity_word s of
        Some d \<Rightarrow> Some (FloatLit d)
      | None \<Rightarrow>
          (case split_sign (trim_blanks s) of
             (neg, u) \<Rightarrow>
               (let ip = takeWhile is_digit u in
                case dropWhile is_digit u of
                  [] \<Rightarrow> (if ip = [] then None else Some (IntLit (signed neg (nat_of_digits ip))))
                | c # cs \<Rightarrow>
                    (let fp = (if c = CHR ''.'' then takeWhile is_digit cs else []);
                         rest = (if c = CHR ''.'' then dropWhile is_digit cs else c # cs)
                     in if ip = [] \<and> fp = [] then None
                        else (case exponent_of rest of
                                None \<Rightarrow> None
                              | Some e \<Rightarrow>
                                  Some (FloatLit (Finite
                                    (scale10 (signed neg (nat_of_digits (ip @ fp)))
                                       (e - int (length fp))))))))))"

definition to_double :: "number \<Rightarrow> double" where
  "to_double n = (case n of IntLit i \<Rightarrow> Finite (of_int i) | FloatLit d \<Rightarrow> d)"

section \<open>Decoding the columns of a chunk\<close>

text \<open>
  A chunk is a slice of the rows of one file under the file's header; a row gives the
  text of its field for every column name. \<^verbatim>\<open>read_csv\<close> decodes every chunk on its own:
  a field that is empty or one of the default markers is missing (NaN), and the type
  of a column of the chunk is inferred from the fields of that chunk: \<^verbatim>\<open>int64\<close> when
  every field is an integer that fits 64 bits, \<^verbatim>\<open>float64\<close> when every field is missing
  or a number, \<^verbatim>\<open>object\<close> (texts and NaN) otherwise, and for a chunk without rows. The
  words for truth values are taken as texts, and an integer that does not fit 64 bits
  as a float.
\<close>

type_synonym row = "string \<Rightarrow> string"

record chunk =
  columns :: "string list"
  rows :: "row list"

definition has_columns :: "chunk \<Rightarrow> string list \<Rightarrow> bool" where
  "has_columns c names = list_all (\<lambda>n. n \<in> set (columns c)) names"

definition column :: "chunk \<Rightarrow> string \<Rightarrow> string list" where
  "column c name = map (\<lambda>r. r name) (rows c)"

definition na_values :: "string list" where
  "na_values =
     ['''', ''#N/A'', ''#N/A N/A'', ''#NA'', ''-1.#IND'', ''-1.#QNAN'', ''-NaN'', ''-nan'',
      ''1.#IND'', ''1.#QNAN'', ''<NA>'', ''N/A'', ''NA'', ''NULL'', ''NaN'', ''None'',
      ''n/a'', ''nan'', ''null'']"

definition isna :: "string \<Rightarrow> bool" where
  "isna v = (v \<in> set na_values)"

datatype dtype = Int64 | Float64 | Object

datatype "value" = NaN | IntV int | FloatV double | StrV string

definition fits_int64 :: "int \<Rightarrow> bool" where
  "fits_int64 n = (- (2 ^ 63) \<le> n \<and> n < 2 ^ 63)"

definition is_int_field :: "string \<Rightarrow> bool" where
  "is_int_field v =
     (case parse_number v of
        Some (IntLit n) \<Rightarrow> fits_int64 n \<and> v \<notin> set na_values
      | _ \<Rightarrow> False)"

definition is_number_field :: "string \<Rightarrow> bool" where
  "is_number_field v = (case parse_number v of Some n \<Rightarrow> True | None \<Rightarrow> False)"

definition infer_dtype :: "string list \<Rightarrow> dtype" where
  "infer_dtype fs =
     (if fs = [] then Object
      else if list_all is_int_field fs then Int64
      else if list_all (\<lambda>v. isna v \<or> is_number_field v) fs then Float64
      else Object)"

definition read_cell :: "dtype \<Rightarrow> string \<Rightarrow> value" where
  "read_cell dt v =
     (if isna v then NaN
      else (case dt of
              Object \<Rightarrow> StrV v
            | Int64 \<Rightarrow> (case parse_number v of Some (IntLit n) \<Rightarrow> IntV n | _ \<Rightarrow> NaN)
            | Float64 \<Rightarrow> (case parse_number v of Some n \<Rightarrow> FloatV (to_double n) | None \<Rightarrow> NaN)))"

text \<open>
  \<^verbatim>\<open>pd.to_numeric(column, errors='coerce')\<close>, lines 58 and 59. A numeric column is
  left as it is. In an object column a text that reads as a number becomes that number
  and every other text becomes NaN; the column is then \<^verbatim>\<open>float64\<close>, so the number is a
  float also when its text is an integer.
\<close>

definition to_numeric :: "value \<Rightarrow> value" where
  "to_numeric x =
     (case x of
        StrV s \<Rightarrow> (case parse_number s of Some n \<Rightarrow> FloatV (to_double n) | None \<Rightarrow> NaN)
      | _ \<Rightarrow> x)"

definition notna :: "value \<Rightarrow> bool" where
  "notna x = (x \<noteq> NaN)"

section \<open>What SQLite stores\<close>

text \<open>
  The columns \<^verbatim>\<open>book_id\<close>, \<^verbatim>\<open>title\<close>, \<^verbatim>\<open>book_title\<close>, \<^verbatim>\<open>user_id\<close> and
  \<^verbatim>\<open>rating_text\<close> are declared \<^verbatim>\<open>TEXT\<close>: a bound integer or float is stored as the text
  that SQLite makes of it, an integer as its digits, a float with a decimal point
  (1.0 as \<^verbatim>\<open>1.0\<close>). The text of a float is given by its digits, which is what SQLite
  prints for a number of at most 15 digits between 0.0001 and 10 to the 15.
\<close>

function show_nat :: "nat \<Rightarrow> string" where
  "show_nat n =
     (if n < 10 then [char_of (48 + n)] else show_nat (n div 10) @ [char_of (48 + n mod 10)])"
  by pat_completeness auto
termination
  by (relation "measure (\<lambda>n. n)") auto

declare show_nat.simps [simp del]

definition show_int :: "int \<Rightarrow> string" where
  "show_int i = (if i < 0 then CHR ''-'' # show_nat (nat (- i)) else show_nat (nat i))"

fun fraction_digits :: "nat \<Rightarrow> rat \<Rightarrow> string" where
  "fraction_digits 0 r = []"
| "fraction_digits (Suc k) r =
     (if r = 0 then []
      else char_of (48 + nat \<lfloor>10 * r\<rfloor>) # fraction_digits k (10 * r - of_int \<lfloor>10 * r\<rfloor>))"

definition real_text :: "rat \<Rightarrow> string" where
  "real_text x =
     (if x < 0 then ''-'' else '''') @ show_nat (nat \<lfloor>\<bar>x\<bar>\<rfloor>) @ ''.''
     @ (if \<bar>x\<bar> = of_int \<lfloor>\<bar>x\<bar>\<rfloor> then ''0''
        else fraction_digits 15 (\<bar>x\<bar> - of_int \<lfloor>\<bar>x\<bar>\<rfloor>))"

definition double_text :: "double \<Rightarrow> string" where
  "double_text d = (case d of Finite x \<Rightarrow> real_text x | PosInf \<Rightarrow> ''Inf'' | NegInf \<Rightarrow> ''-Inf'')"

definition sql_text :: "value \<Rightarrow> cell" where
  "sql_text x =
     (case x of
        NaN \<Rightarrow> None
      | IntV n \<Rightarrow> Some (show_int n)
      | FloatV d \<Rightarrow> Some (double_text d)
      | StrV s \<Rightarrow> Some s)"

text \<open>The column \<^verbatim>\<open>avg_rating\<close> is declared \<^verbatim>\<open>REAL\<close>: a number is stored as a float.\<close>

definition sql_real :: "value \<Rightarrow> double option" where
  "sql_real x =
     (case x of
        NaN \<Rightarrow> None
      | IntV n \<Rightarrow> Some (Finite (of_int n))
      | FloatV d \<Rightarrow> Some d
      | StrV s \<Rightarrow> map_option to_double (parse_number s))"

section \<open>The two transformations\<close>

text \<open>The rows that the program stores.\<close>

record book_row =
  book_id :: cell
  title :: cell
  avg_rating :: "double option"

record rating_clean =
  book_title :: cell
  user_id :: cell
  rating_text :: cell
  rating_int :: int

text \<open>
  Lines 58 to 64, the branch of a book file. Each of the three columns is decoded with
  the type inferred for the chunk; \<^verbatim>\<open>Id\<close> and \<^verbatim>\<open>Rating\<close> are coerced to numbers;
  \<^verbatim>\<open>dropna(subset=['Id', 'Name'])\<close> keeps the rows where neither \<^verbatim>\<open>Id\<close> nor \<^verbatim>\<open>Name\<close> is
  NaN; the selection renames the three columns, and \<^verbatim>\<open>to_sql\<close> binds the cells to the
  columns of the table. Asking a chunk for a column that the header does not have
  raises \<^verbatim>\<open>KeyError\<close>.
\<close>

definition book_cells :: "chunk \<Rightarrow> row \<Rightarrow> value \<times> value \<times> value" where
  "book_cells c r =
     (to_numeric (read_cell (infer_dtype (column c ''Id'')) (r ''Id'')),
      read_cell (infer_dtype (column c ''Name'')) (r ''Name''),
      to_numeric (read_cell (infer_dtype (column c ''Rating'')) (r ''Rating'')))"

definition notna_book :: "value \<times> value \<times> value \<Rightarrow> bool" where
  "notna_book t = (case t of (i, n, x) \<Rightarrow> notna i \<and> notna n)"

definition rename_book :: "value \<times> value \<times> value \<Rightarrow> book_row" where
  "rename_book t =
     (case t of (i, n, x) \<Rightarrow>
        \<lparr>book_id = sql_text i, title = sql_text n, avg_rating = sql_real x\<rparr>)"

definition book_rows :: "chunk \<Rightarrow> book_row list" where
  "book_rows c = map rename_book (filter notna_book (map (book_cells c) (rows c)))"

definition book_mapper :: "chunk \<Rightarrow> error + book_row list" where
  "book_mapper c =
     (if has_columns c [''Id'', ''Rating'', ''Name'']
      then Inr (book_rows c) else Inl KeyError)"

text \<open>
  Line 71, one cell at a time:
  \<^verbatim>\<open>chunk['Rating'].str.lower().str.strip().map(RATING_MAP).fillna(0)\<close>.
  The string methods leave NaN as it is, \<^verbatim>\<open>map\<close> sends a text that is not a key of
  the dictionary to NaN, and \<^verbatim>\<open>fillna(0)\<close> puts 0 there.
\<close>

definition str_lower_strip :: "value \<Rightarrow> value" where
  "str_lower_strip x = (case x of StrV s \<Rightarrow> StrV (str_strip (str_lower s)) | _ \<Rightarrow> x)"

definition map_rating :: "value \<Rightarrow> int option" where
  "map_rating x = (case x of StrV s \<Rightarrow> RATING_MAP s | _ \<Rightarrow> None)"

definition fillna :: "'a \<Rightarrow> 'a option \<Rightarrow> 'a" where
  "fillna d v = (case v of None \<Rightarrow> d | Some x \<Rightarrow> x)"

definition rating_int_of :: "value \<Rightarrow> int" where
  "rating_int_of x = fillna 0 (map_rating (str_lower_strip x))"

text \<open>
  Lines 71 to 76, the branch of a rating file. The accessor \<^verbatim>\<open>.str\<close> of line 71 is an
  operation on the column: it raises \<^verbatim>\<open>AttributeError\<close> unless the column of the chunk
  is an object column, that is, when the chunk has rows and every \<^verbatim>\<open>Rating\<close> in it is
  missing or a number. Otherwise the column \<^verbatim>\<open>rating_int\<close> is added,
  \<^verbatim>\<open>dropna(subset=['Name', 'ID'])\<close> keeps the rows with a title and a user, and the
  selection renames the columns.
\<close>

definition rating_cells :: "chunk \<Rightarrow> row \<Rightarrow> value \<times> value \<times> value \<times> int" where
  "rating_cells c r =
     (read_cell (infer_dtype (column c ''Name'')) (r ''Name''),
      read_cell (infer_dtype (column c ''ID'')) (r ''ID''),
      read_cell Object (r ''Rating''),
      rating_int_of (read_cell Object (r ''Rating'')))"

definition notna_rating :: "value \<times> value \<times> value \<times> int \<Rightarrow> bool" where
  "notna_rating t = (case t of (n, u, l, k) \<Rightarrow> notna n \<and> notna u)"

definition rename_rating :: "value \<times> value \<times> value \<times> int \<Rightarrow> rating_clean" where
  "rename_rating t =
     (case t of (n, u, l, k) \<Rightarrow>
        \<lparr>book_title = sql_text n, user_id = sql_text u, rating_text = sql_text l,
         rating_int = k\<rparr>)"

definition rating_rows :: "chunk \<Rightarrow> rating_clean list" where
  "rating_rows c = map rename_rating (filter notna_rating (map (rating_cells c) (rows c)))"

definition rating_mapper :: "chunk \<Rightarrow> error + rating_clean list" where
  "rating_mapper c =
     (if has_columns c [''Rating''] then
        (if infer_dtype (column c ''Rating'') = Object then
           (if has_columns c [''Name'', ''ID''] then Inr (rating_rows c) else Inl KeyError)
         else Inl AttributeError)
      else Inl KeyError)"

section \<open>The store\<close>

text \<open>
  The two tables of the database, in insertion order. \<^verbatim>\<open>books\<close> has the primary key
  \<^verbatim>\<open>book_id\<close>, a text; a row of \<^verbatim>\<open>ratings\<close> is a cleaned row together with the key
  \<^verbatim>\<open>rating_id\<close> that the table assigns. Before a run either table may be absent.
\<close>

record rating_row = rating_clean +
  rating_id :: nat

record database =
  books_table :: "book_row list option"
  ratings_table :: "rating_row list option"
  index_names :: "string list"

datatype log_entry =
    Processed nat string string
  | EtlComplete

text \<open>
  The state of a run after the schema statements of lines 94 to 99: both tables exist.
  \<^verbatim>\<open>connections\<close> are the handles of the open connections, \<^verbatim>\<open>opened\<close> counts the
  connections opened so far, \<^verbatim>\<open>log\<close> is the log file.
\<close>

record state =
  books :: "book_row list"
  ratings :: "rating_row list"
  indexes :: "string list"
  connections :: "nat list"
  opened :: nat
  log :: "log_entry list"

text \<open>
  What the program reads from its surroundings: the chunks that iterating
  \<^verbatim>\<open>pd.read_csv(path, chunksize=100000, ...)\<close> yields for a file, each one a chunk or
  the error raised in its place; whether the store rejects the write of the k-th chunk
  of a file (\<^verbatim>\<open>sqlite3.OperationalError\<close>: locked, full, read-only); the seconds
  between the two readings of the clock; the names in the source folder.
\<close>

record env =
  read_csv :: "string \<Rightarrow> (error + chunk) list"
  store_fault :: "string \<Rightarrow> nat \<Rightarrow> bool"
  elapsed :: "string \<Rightarrow> rat"
  listdir :: "string list"

definition connect :: "state \<Rightarrow> nat \<times> state" where
  "connect s =
     (opened s, s\<lparr>connections := opened s # connections s, opened := Suc (opened s)\<rparr>)"

definition close :: "nat \<Rightarrow> state \<Rightarrow> state" where
  "close h s = s\<lparr>connections := removeAll h (connections s)\<rparr>"

text \<open>
  \<^verbatim>\<open>insert_ignore\<close>, lines 30 to 32: \<^verbatim>\<open>INSERT OR IGNORE\<close>, one row after the other. A
  row whose key is already in the table is dropped; a row without a key is always
  stored, since SQLite holds two missing keys to be different.
\<close>

definition insert_or_ignore :: "book_row list \<Rightarrow> book_row \<Rightarrow> book_row list" where
  "insert_or_ignore tbl r =
     (case book_id r of
        None \<Rightarrow> tbl @ [r]
      | Some k \<Rightarrow> (if Some k \<in> set (map book_id tbl) then tbl else tbl @ [r]))"

definition insert_ignore :: "book_row list \<Rightarrow> book_row list \<Rightarrow> book_row list" where
  "insert_ignore tbl data_iter = foldl insert_or_ignore tbl data_iter"

text \<open>
  \<^verbatim>\<open>to_sql('ratings', conn, if_exists='append', index=False)\<close>, line 77: every row is
  appended under the next \<^verbatim>\<open>rating_id\<close>.
\<close>

definition stored_rating :: "nat \<Rightarrow> rating_clean \<Rightarrow> rating_row" where
  "stored_rating n c =
     \<lparr>book_title = book_title c, user_id = user_id c, rating_text = rating_text c,
      rating_int = rating_int c, rating_id = n\<rparr>"

definition append_rating :: "rating_row list \<Rightarrow> rating_clean \<Rightarrow> rating_row list" where
  "append_rating tbl c = tbl @ [stored_rating (Suc (length tbl)) c]"

definition append_ratings :: "rating_row list \<Rightarrow> rating_clean list \<Rightarrow> rating_row list" where
  "append_ratings tbl cs = foldl append_rating tbl cs"

text \<open>
  The two calls of \<^verbatim>\<open>to_sql\<close>, lines 65 and 77. A write that the store rejects
  raises and leaves the tables as they were.
\<close>

definition to_sql_books ::
  "env \<Rightarrow> string \<Rightarrow> nat \<Rightarrow> book_row list \<Rightarrow> state \<Rightarrow> error + state" where
  "to_sql_books E filename k clean_chunk s =
     (if store_fault E filename k then Inl OperationalError
      else Inr (s\<lparr>books := insert_ignore (books s) clean_chunk\<rparr>))"

definition to_sql_ratings ::
  "env \<Rightarrow> string \<Rightarrow> nat \<Rightarrow> rating_clean list \<Rightarrow> state \<Rightarrow> error + state" where
  "to_sql_ratings E filename k clean_chunk s =
     (if store_fault E filename k then Inl OperationalError
      else Inr (s\<lparr>ratings := append_ratings (ratings s) clean_chunk\<rparr>))"

section \<open>Processing one file\<close>

definition startswith :: "string \<Rightarrow> string \<Rightarrow> bool" where
  "startswith s p = (take (length p) s = p)"

definition endswith :: "string \<Rightarrow> string \<Rightarrow> bool" where
  "endswith s e = startswith (rev s) (rev e)"

text \<open>
  The loop of lines 55 to 79 over the chunks of a file. It carries the number of the
  chunk, \<^verbatim>\<open>total_processed\<close> and \<^verbatim>\<open>type_label\<close>; the label has no value before a
  branch assigns it. An error ends the loop with the state reached so far.
\<close>

fun chunk_loop ::
  "env \<Rightarrow> string \<Rightarrow> nat \<Rightarrow> (error + chunk) list \<Rightarrow> nat \<Rightarrow> string option \<Rightarrow> state
     \<Rightarrow> (error + nat \<times> string option) \<times> state" where
  "chunk_loop E filename k [] total_processed type_label s =
     (Inr (total_processed, type_label), s)"
| "chunk_loop E filename k (Inl e # rest) total_processed type_label s = (Inl e, s)"
| "chunk_loop E filename k (Inr c # rest) total_processed type_label s =
     (if startswith filename ''book'' then
        (case book_mapper c of
           Inl e \<Rightarrow> (Inl e, s)
         | Inr clean_chunk \<Rightarrow>
             (case to_sql_books E filename k clean_chunk s of
                Inl e \<Rightarrow> (Inl e, s)
              | Inr s' \<Rightarrow>
                  chunk_loop E filename (Suc k) rest
                    (total_processed + length clean_chunk) (Some ''books'') s'))
      else if startswith filename ''user_rating'' then
        (case rating_mapper c of
           Inl e \<Rightarrow> (Inl e, s)
         | Inr clean_chunk \<Rightarrow>
             (case to_sql_ratings E filename k clean_chunk s of
                Inl e \<Rightarrow> (Inl e, s)
              | Inr s' \<Rightarrow>
                  chunk_loop E filename (Suc k) rest
                    (total_processed + length clean_chunk) (Some ''ratings'') s'))
      else chunk_loop E filename (Suc k) rest total_processed type_label s)"

text \<open>
  Lines 81 and 82: the message of the log reads \<^verbatim>\<open>total_processed\<close>, then
  \<^verbatim>\<open>type_label\<close>, then the file name, then divides by the elapsed time.
\<close>

definition report ::
  "env \<Rightarrow> string \<Rightarrow> nat \<Rightarrow> string option \<Rightarrow> state \<Rightarrow> (error + nat) \<times> state" where
  "report E filename total_processed type_label s =
     (case type_label of
        None \<Rightarrow> (Inl UnboundLocalError, s)
      | Some l \<Rightarrow>
          (if elapsed E filename = 0 then (Inl ZeroDivisionError, s)
           else (Inr total_processed,
                 s\<lparr>log := log s @ [Processed total_processed l filename]\<rparr>)))"

text \<open>The body of the \<^verbatim>\<open>try\<close>, lines 55 to 82.\<close>

definition try_body :: "env \<Rightarrow> string \<Rightarrow> state \<Rightarrow> (error + nat) \<times> state" where
  "try_body E filename s =
     (case chunk_loop E filename 0 (read_csv E filename) 0 None s of
        (Inl e, s') \<Rightarrow> (Inl e, s')
      | (Inr (total_processed, type_label), s') \<Rightarrow>
          report E filename total_processed type_label s')"

text \<open>
  \<^verbatim>\<open>process_single_file\<close>, lines 48 to 85: the connection is opened, the body runs,
  and the \<^verbatim>\<open>finally\<close> clause closes the connection whether the body returned or raised.
\<close>

definition process_single_file :: "env \<Rightarrow> string \<Rightarrow> state \<Rightarrow> (error + nat) \<times> state" where
  "process_single_file E filename s =
     (case connect s of
        (conn, s1) \<Rightarrow>
          (case try_body E filename s1 of
             (result, s2) \<Rightarrow> (result, close conn s2)))"

section \<open>The run\<close>

text \<open>
  Lines 93 to 99 and 106: \<^verbatim>\<open>CREATE TABLE IF NOT EXISTS books\<close> keeps a table that is
  there, \<^verbatim>\<open>DROP TABLE IF EXISTS ratings\<close> removes the table with its index, and
  \<^verbatim>\<open>CREATE TABLE ratings\<close> makes an empty one. The log file is opened anew.
\<close>

definition create_table_if_not_exists :: "book_row list option \<Rightarrow> book_row list" where
  "create_table_if_not_exists t = (case t of None \<Rightarrow> [] | Some b \<Rightarrow> b)"

definition drop_and_create :: "rating_row list option \<Rightarrow> rating_row list" where
  "drop_and_create t = []"

definition init_schema :: "database \<Rightarrow> state" where
  "init_schema d =
     (case connect
        \<lparr>books = create_table_if_not_exists (books_table d),
         ratings = drop_and_create (ratings_table d),
         indexes = removeAll ''idx_rating_title'' (index_names d),
         connections = [], opened = 0, log = []\<rparr> of
        (conn, s) \<Rightarrow> close conn s)"

text \<open>What a finished run leaves in the database file for the next one.\<close>

definition database_of :: "state \<Rightarrow> database" where
  "database_of s =
     \<lparr>books_table = Some (books s), ratings_table = Some (ratings s),
      index_names = indexes s\<rparr>"

text \<open>Line 109: the names that end in \<^verbatim>\<open>.csv\<close>, sorted.\<close>

definition csv_files :: "env \<Rightarrow> string list" where
  "csv_files E = sort (filter (\<lambda>f. endswith f ''.csv'') (listdir E))"

text \<open>
  Lines 112 and 113. \<^verbatim>\<open>executor.map\<close> submits one task for every file and hands back
  the results, a value or the error that the task raised; the tasks are run here one
  after the other in the order of the list. The program never reads the results.
\<close>

fun executor_map ::
  "(string \<Rightarrow> state \<Rightarrow> (error + nat) \<times> state) \<Rightarrow> string list \<Rightarrow> state
     \<Rightarrow> (error + nat) list \<times> state" where
  "executor_map f [] s = ([], s)"
| "executor_map f (x # xs) s =
     (case f x s of
        (r, s1) \<Rightarrow> (case executor_map f xs s1 of (rs, s2) \<Rightarrow> (r # rs, s2)))"

definition create_index_if_not_exists :: "string \<Rightarrow> state \<Rightarrow> state" where
  "create_index_if_not_exists name s =
     (if name \<in> set (indexes s) then s else s\<lparr>indexes := indexes s @ [name]\<rparr>)"

record insights =
  books_count :: nat
  ratings_count :: nat

text \<open>
  \<^verbatim>\<open>run_production_etl\<close>, lines 88 to 140, without the preview of lines 102 to 105,
  the printing and the ranking of titles: the schema, the dispatch, the two indexes,
  the two counts, the closing line of the log.
\<close>

definition run_production_etl :: "env \<Rightarrow> database \<Rightarrow> insights \<times> state" where
  "run_production_etl E d =
     (case executor_map (process_single_file E) (csv_files E) (init_schema d) of
        (results, s1) \<Rightarrow>
          (case connect s1 of
             (conn, s2) \<Rightarrow>
               (let s3 = create_index_if_not_exists ''idx_rating_title''
                           (create_index_if_not_exists ''idx_book_title'' s2)
                in (\<lparr>books_count = length (books s3), ratings_count = length (ratings s3)\<rparr>,
                    close conn (s3\<lparr>log := log s3 @ [EtlComplete]\<rparr>)))))"

section \<open>Reading a file in chunks\<close>

text \<open>
  The chunks of a file that is read without an error: slices of at most \<^verbatim>\<open>chunksize\<close>
  rows in the order of the file, each still to be decoded. A file with a header and no
  row gives one empty chunk. The program reads with \<^verbatim>\<open>chunksize=100000\<close>.
\<close>

function chunks_of :: "nat \<Rightarrow> 'a list \<Rightarrow> 'a list list" where
  "chunks_of n xs = (if n = 0 \<or> xs = [] then [] else take n xs # chunks_of n (drop n xs))"
  by pat_completeness auto
termination
  by (relation "measure (\<lambda>(n, xs). length xs)") auto

declare chunks_of.simps [simp del]

definition csv_chunks :: "nat \<Rightarrow> string list \<Rightarrow> row list \<Rightarrow> chunk list" where
  "csv_chunks chunksize header rs =
     map (\<lambda>part. \<lparr>columns = header, rows = part\<rparr>)
       (if rs = [] then [[]] else chunks_of chunksize rs)"

text \<open>A row of a file, given by the texts of its fields; other fields are empty.\<close>

definition csv_row :: "(string \<times> string) list \<Rightarrow> row" where
  "csv_row kvs name = (case map_of kvs name of None \<Rightarrow> [] | Some v \<Rightarrow> v)"

text \<open>
  The rows that a sequence of chunks gives under a transformation, the chunks taken
  one after the other as the loop takes them, up to the first error.
\<close>

fun map_chunks :: "(chunk \<Rightarrow> error + 'a list) \<Rightarrow> chunk list \<Rightarrow> error + 'a list" where
  "map_chunks f [] = Inr []"
| "map_chunks f (c # cs) =
     (case f c of
        Inl e \<Rightarrow> Inl e
      | Inr xs \<Rightarrow> (case map_chunks f cs of Inl e \<Rightarrow> Inl e | Inr ys \<Rightarrow> Inr (xs @ ys)))"

text \<open>An environment in which nothing fails and the folder is empty.\<close>

definition calm_env :: env where
  "calm_env =
     \<lparr>read_csv = (\<lambda>f. []), store_fault = (\<lambda>f k. False), elapsed = (\<lambda>f. 1),
      listdir = []\<rparr>"

text \<open>A database file without tables, as before the first run.\<close>

definition empty_database :: database where
  "empty_database = \<lparr>books_table = None, ratings_table = None, index_names = []\<rparr>"

text \<open>
  The rows that the loop of a rating file writes to \<^verbatim>\<open>ratings\<close>: those of the chunks
  before the first chunk that raises, while it is read, transformed or written.
\<close>

fun rating_chunks_written ::
  "env \<Rightarrow> string \<Rightarrow> nat \<Rightarrow> (error + chunk) list \<Rightarrow> rating_clean list" where
  "rating_chunks_written E filename k [] = []"
| "rating_chunks_written E filename k (Inl e # rest) = []"
| "rating_chunks_written E filename k (Inr c # rest) =
     (case rating_mapper c of
        Inl e \<Rightarrow> []
      | Inr clean_chunk \<Rightarrow>
          (if store_fault E filename k then []
           else clean_chunk @ rating_chunks_written E filename (Suc k) rest))"

definition ratings_written :: "env \<Rightarrow> string \<Rightarrow> rating_clean list" where
  "ratings_written E filename =
     (if startswith filename ''book'' then []
      else if startswith filename ''user_rating''
      then rating_chunks_written E filename 0 (read_csv E filename)
      else [])"

section \<open>The rating labels, cell by cell and column by column\<close>

lemma rating_int_of_NaN: "rating_int_of NaN = 0"
  by (simp add: rating_int_of_def fillna_def map_rating_def str_lower_strip_def)

lemma rating_int_of_StrV:
  "rating_int_of (StrV s) =
     (case RATING_MAP (str_strip (str_lower s)) of None \<Rightarrow> 0 | Some n \<Rightarrow> n)"
  by (simp add: rating_int_of_def fillna_def map_rating_def str_lower_strip_def)

text \<open>
  In an object column every cell is sent to the number of its lowered and trimmed
  label, and to 0 when that is none of the six labels or the cell is missing.
\<close>

lemma rating_int_of_labels:
  "rating_int_of (StrV s) =
     (if str_strip (str_lower s) = ''it was amazing'' then 5
      else if str_strip (str_lower s) = ''really liked it'' then 4
      else if str_strip (str_lower s) = ''liked it'' then 3
      else if str_strip (str_lower s) = ''it was ok'' then 2
      else if str_strip (str_lower s) = ''did not like it'' then 1
      else 0)"
  by (simp add: rating_int_of_StrV RATING_MAP_def)

lemma rating_mapper_object:
  assumes "has_columns c [''Rating'', ''Name'', ''ID'']"
    and "infer_dtype (column c ''Rating'') = Object"
  shows "rating_mapper c = Inr (rating_rows c)"
  using assms by (simp add: rating_mapper_def has_columns_def)

lemma rating_mapper_not_object:
  assumes "has_columns c [''Rating'']"
    and "infer_dtype (column c ''Rating'') \<noteq> Object"
  shows "rating_mapper c = Inl AttributeError"
  using assms by (simp add: rating_mapper_def)

text \<open>
  C1. In a chunk whose \<^verbatim>\<open>Rating\<close> column holds a text, the six labels, in any casing and
  with white space around them, are sent to 5, 4, 3, 2, 1 and 0, and the empty field
  and any other text to 0. But line 71 does raise: in a chunk whose \<^verbatim>\<open>Rating\<close> column
  holds no text (every field missing, or every field a number) the accessor \<^verbatim>\<open>.str\<close>
  raises \<^verbatim>\<open>AttributeError\<close>, so a missing label is not sent to 0 there.
\<close>

theorem rating_column_without_text_raises:
  "rating_mapper
     \<lparr>columns = [''ID'', ''Name'', ''Rating''],
      rows = [csv_row [(''ID'', ''u1''), (''Name'', ''Dune''), (''Rating'', '''')]]\<rparr>
     = Inl AttributeError
   \<and> rating_mapper
     \<lparr>columns = [''ID'', ''Name'', ''Rating''],
      rows = [csv_row [(''ID'', ''u1''), (''Name'', ''Dune''), (''Rating'', ''5'')],
              csv_row [(''ID'', ''u2''), (''Name'', ''Emma''), (''Rating'', '''')]]\<rparr>
     = Inl AttributeError
   \<and> map_sum id (map rating_int) (rating_mapper
     \<lparr>columns = [''ID'', ''Name'', ''Rating''],
      rows = [csv_row [(''ID'', ''u1''), (''Name'', ''Dune''), (''Rating'', ''it was amazing'')],
              csv_row [(''ID'', ''u2''), (''Name'', ''Dune''), (''Rating'', ''  Really LIKED it '')],
              csv_row [(''ID'', ''u3''), (''Name'', ''Dune''), (''Rating'', ''Liked It'')],
              csv_row [(''ID'', ''u4''), (''Name'', ''Dune''), (''Rating'', ''it was ok'')],
              csv_row [(''ID'', ''u5''), (''Name'', ''Dune''), (''Rating'', ''did not like it'')],
              csv_row [(''ID'', ''u6''), (''Name'', ''Dune''),
                       (''Rating'', ''This user marked the book as \"to-read\"'')],
              csv_row [(''ID'', ''u7''), (''Name'', ''Dune''), (''Rating'', '''')],
              csv_row [(''ID'', ''u8''), (''Name'', ''Dune''), (''Rating'', ''5 stars'')]]\<rparr>)
     = Inr [5, 4, 3, 2, 1, 0, 0, 0]
   \<and> rating_int_of (StrV s) =
       (if str_strip (str_lower s) = ''it was amazing'' then 5
        else if str_strip (str_lower s) = ''really liked it'' then 4
        else if str_strip (str_lower s) = ''liked it'' then 3
        else if str_strip (str_lower s) = ''it was ok'' then 2
        else if str_strip (str_lower s) = ''did not like it'' then 1
        else 0)
   \<and> rating_int_of NaN = 0"
proof -
  have a: "rating_mapper
     \<lparr>columns = [''ID'', ''Name'', ''Rating''],
      rows = [csv_row [(''ID'', ''u1''), (''Name'', ''Dune''), (''Rating'', '''')]]\<rparr>
     = Inl AttributeError"
    by code_simp
  have b: "rating_mapper
     \<lparr>columns = [''ID'', ''Name'', ''Rating''],
      rows = [csv_row [(''ID'', ''u1''), (''Name'', ''Dune''), (''Rating'', ''5'')],
              csv_row [(''ID'', ''u2''), (''Name'', ''Emma''), (''Rating'', '''')]]\<rparr>
     = Inl AttributeError"
    by code_simp
  have c: "map_sum id (map rating_int) (rating_mapper
     \<lparr>columns = [''ID'', ''Name'', ''Rating''],
      rows = [csv_row [(''ID'', ''u1''), (''Name'', ''Dune''), (''Rating'', ''it was amazing'')],
              csv_row [(''ID'', ''u2''), (''Name'', ''Dune''), (''Rating'', ''  Really LIKED it '')],
              csv_row [(''ID'', ''u3''), (''Name'', ''Dune''), (''Rating'', ''Liked It'')],
              csv_row [(''ID'', ''u4''), (''Name'', ''Dune''), (''Rating'', ''it was ok'')],
              csv_row [(''ID'', ''u5''), (''Name'', ''Dune''), (''Rating'', ''did not like it'')],
              csv_row [(''ID'', ''u6''), (''Name'', ''Dune''),
                       (''Rating'', ''This user marked the book as \"to-read\"'')],
              csv_row [(''ID'', ''u7''), (''Name'', ''Dune''), (''Rating'', '''')],
              csv_row [(''ID'', ''u8''), (''Name'', ''Dune''), (''Rating'', ''5 stars'')]]\<rparr>)
     = Inr [5, 4, 3, 2, 1, 0, 0, 0]"
    by code_simp
  show ?thesis
    using a b c rating_int_of_labels [of s] rating_int_of_NaN by (simp only: simp_thms)
qed

section \<open>The schema mapper on book chunks\<close>







lemma sql_text_Some: "x \<noteq> NaN \<Longrightarrow> \<exists>y. sql_text x = Some y"
  by (cases x) (simp_all add: sql_text_def)



lemma book_rows_notna:
  "b \<in> set (book_rows c) \<Longrightarrow> book_id b \<noteq> None \<and> title b \<noteq> None"
  by (auto simp: book_rows_def notna_book_def rename_book_def notna_def
        intro: sql_text_Some)




section \<open>Chunk size\<close>

text \<open>
  C4. The rows that come out do depend on where the file is cut, since pandas decodes
  every chunk on its own. The rating rows (Dune, u1, no label) and (Emma, u2,
  liked it) give two rows when they stand in one chunk, and raise \<^verbatim>\<open>AttributeError\<close>
  when the first row is a chunk of its own; then the file stores nothing. The book
  rows (1, A, 4) and (abc, X, 3) give the key \<^verbatim>\<open>1.0\<close> in one chunk and the key \<^verbatim>\<open>1\<close>
  in chunks of one row.
\<close>

theorem chunk_size_changes_rows:
  "map_chunks rating_mapper (csv_chunks 1 [''ID'', ''Name'', ''Rating'']
      [csv_row [(''ID'', ''u1''), (''Name'', ''Dune''), (''Rating'', '''')],
       csv_row [(''ID'', ''u2''), (''Name'', ''Emma''), (''Rating'', ''liked it'')]])
     = Inl AttributeError
   \<and> map_chunks rating_mapper (csv_chunks 2 [''ID'', ''Name'', ''Rating'']
      [csv_row [(''ID'', ''u1''), (''Name'', ''Dune''), (''Rating'', '''')],
       csv_row [(''ID'', ''u2''), (''Name'', ''Emma''), (''Rating'', ''liked it'')]])
     = Inr [\<lparr>book_title = Some ''Dune'', user_id = Some ''u1'', rating_text = None,
              rating_int = 0\<rparr>,
            \<lparr>book_title = Some ''Emma'', user_id = Some ''u2'',
              rating_text = Some ''liked it'', rating_int = 3\<rparr>]
   \<and> process_single_file
       (calm_env\<lparr>read_csv := \<lambda>f. map Inr (csv_chunks 1 [''ID'', ''Name'', ''Rating'']
          [csv_row [(''ID'', ''u1''), (''Name'', ''Dune''), (''Rating'', '''')],
           csv_row [(''ID'', ''u2''), (''Name'', ''Emma''), (''Rating'', ''liked it'')]])\<rparr>)
       ''user_rating_1.csv'' (init_schema empty_database)
     = (Inl AttributeError, (init_schema empty_database)\<lparr>opened := 2\<rparr>)
   \<and> process_single_file
       (calm_env\<lparr>read_csv := \<lambda>f. map Inr (csv_chunks 2 [''ID'', ''Name'', ''Rating'']
          [csv_row [(''ID'', ''u1''), (''Name'', ''Dune''), (''Rating'', '''')],
           csv_row [(''ID'', ''u2''), (''Name'', ''Emma''), (''Rating'', ''liked it'')]])\<rparr>)
       ''user_rating_1.csv'' (init_schema empty_database)
     = (Inr 2, (init_schema empty_database)
          \<lparr>opened := 2,
           ratings := [\<lparr>book_title = Some ''Dune'', user_id = Some ''u1'', rating_text = None,
                         rating_int = 0, rating_id = 1\<rparr>,
                       \<lparr>book_title = Some ''Emma'', user_id = Some ''u2'',
                         rating_text = Some ''liked it'', rating_int = 3, rating_id = 2\<rparr>],
           log := [Processed 2 ''ratings'' ''user_rating_1.csv'']\<rparr>)
   \<and> map_chunks book_mapper (csv_chunks 1 [''Id'', ''Name'', ''Rating'']
      [csv_row [(''Id'', ''1''), (''Name'', ''A''), (''Rating'', ''4'')],
       csv_row [(''Id'', ''abc''), (''Name'', ''X''), (''Rating'', ''3'')]])
     = Inr [\<lparr>book_id = Some ''1'', title = Some ''A'', avg_rating = Some (Finite 4)\<rparr>]
   \<and> map_chunks book_mapper (csv_chunks 2 [''Id'', ''Name'', ''Rating'']
      [csv_row [(''Id'', ''1''), (''Name'', ''A''), (''Rating'', ''4'')],
       csv_row [(''Id'', ''abc''), (''Name'', ''X''), (''Rating'', ''3'')]])
     = Inr [\<lparr>book_id = Some ''1.0'', title = Some ''A'', avg_rating = Some (Finite 4)\<rparr>]"
  by code_simp

section \<open>What processing a file leaves untouched\<close>

lemma chunk_loop_frame:
  "connections (snd (chunk_loop E f k st t l s)) = connections s
   \<and> opened (snd (chunk_loop E f k st t l s)) = opened s
   \<and> log (snd (chunk_loop E f k st t l s)) = log s
   \<and> indexes (snd (chunk_loop E f k st t l s)) = indexes s"
proof (induction st arbitrary: k t l s)
  case Nil
  show ?case by simp
next
  case (Cons x st)
  show ?case
  proof (cases x)
    case (Inl e)
    then show ?thesis by simp
  next
    case (Inr c)
    then show ?thesis
      by (auto simp: Cons to_sql_books_def to_sql_ratings_def split: sum.split)
  qed
qed

lemma report_frame:
  "connections (snd (report E f t l s)) = connections s
   \<and> opened (snd (report E f t l s)) = opened s
   \<and> books (snd (report E f t l s)) = books s
   \<and> ratings (snd (report E f t l s)) = ratings s
   \<and> indexes (snd (report E f t l s)) = indexes s"
  by (simp add: report_def split: option.split)

lemma try_body_frame:
  "connections (snd (try_body E f s)) = connections s
   \<and> opened (snd (try_body E f s)) = opened s
   \<and> indexes (snd (try_body E f s)) = indexes s"
proof -
  obtain r s' where loop: "chunk_loop E f 0 (read_csv E f) 0 None s = (r, s')"
    by (cases "chunk_loop E f 0 (read_csv E f) 0 None s")
  from chunk_loop_frame [of E f 0 "read_csv E f" 0 None s] loop
  have s': "connections s' = connections s" "opened s' = opened s" "indexes s' = indexes s"
    by simp_all
  show ?thesis
  proof (cases r)
    case (Inl e)
    with loop s' show ?thesis by (simp add: try_body_def)
  next
    case (Inr p)
    with loop s' report_frame [of E f "fst p" "snd p" s'] show ?thesis
      by (cases p) (simp add: try_body_def)
  qed
qed

section \<open>The connection of a file\<close>

text \<open>
  C7. The connection that \<^verbatim>\<open>process_single_file\<close> opens for a file is not among the
  open connections when the function is left, whatever the environment and whether
  the function returns a count or raises an error: the connections open afterwards
  are those that were open before.
\<close>

theorem connection_closed:
  "fst (connect s) \<notin> set (connections (snd (process_single_file E f s)))
   \<and> connections (snd (process_single_file E f s))
       = removeAll (fst (connect s)) (connections s)"
proof -
  obtain r s2 where body: "try_body E f (snd (connect s)) = (r, s2)"
    by (cases "try_body E f (snd (connect s))")
  from try_body_frame [of E f "snd (connect s)"] body
  have c: "connections s2 = opened s # connections s"
    by (simp add: connect_def)
  have p: "process_single_file E f s = (r, close (opened s) s2)"
    using body by (simp add: process_single_file_def connect_def)
  have "connections (snd (process_single_file E f s)) = removeAll (opened s) (connections s)"
    by (simp add: p close_def c)
  then show ?thesis by (simp add: connect_def)
qed

text \<open>Every kind of error is raised by some file, and the connection is closed then.\<close>

lemma process_single_file_raises:
  "process_single_file (calm_env\<lparr>read_csv := \<lambda>f. [Inl ReadError]\<rparr>) ''book1.csv''
       (init_schema empty_database)
     = (Inl ReadError, (init_schema empty_database)\<lparr>opened := 2\<rparr>)
   \<and> process_single_file
       (calm_env\<lparr>read_csv := \<lambda>f. [Inr \<lparr>columns = [''Id'', ''Title''], rows = []\<rparr>]\<rparr>)
       ''book1.csv'' (init_schema empty_database)
     = (Inl KeyError, (init_schema empty_database)\<lparr>opened := 2\<rparr>)
   \<and> process_single_file
       (calm_env\<lparr>read_csv := \<lambda>f. [Inr \<lparr>columns = [''ID'', ''Name'', ''Rating''],
          rows = [csv_row [(''ID'', ''u1''), (''Name'', ''Dune''), (''Rating'', '''')]]\<rparr>]\<rparr>)
       ''user_rating_1.csv'' (init_schema empty_database)
     = (Inl AttributeError, (init_schema empty_database)\<lparr>opened := 2\<rparr>)
   \<and> process_single_file
       (calm_env\<lparr>read_csv := \<lambda>f. [Inr \<lparr>columns = [''Id'', ''Name'', ''Rating''], rows = []\<rparr>],
                  store_fault := \<lambda>f k. True\<rparr>)
       ''book1.csv'' (init_schema empty_database)
     = (Inl OperationalError, (init_schema empty_database)\<lparr>opened := 2\<rparr>)
   \<and> process_single_file
       (calm_env\<lparr>read_csv := \<lambda>f. [Inr \<lparr>columns = [''Id'', ''Name'', ''Rating''], rows = []\<rparr>],
                  elapsed := \<lambda>f. 0\<rparr>)
       ''book1.csv'' (init_schema empty_database)
     = (Inl ZeroDivisionError, (init_schema empty_database)\<lparr>opened := 2\<rparr>)"
  by code_simp

section \<open>Files that are neither book files nor rating files\<close>

lemma chunk_loop_unknown:
  assumes "\<not> startswith f ''book''" and "\<not> startswith f ''user_rating''"
  shows "chunk_loop E f k st t l s =
     ((case List.find isl st of None \<Rightarrow> Inr (t, l) | Some x \<Rightarrow> Inl (projl x)), s)"
proof (induction st arbitrary: k)
  case Nil
  show ?case by simp
next
  case (Cons x st)
  show ?case
  proof (cases x)
    case (Inl e)
    then show ?thesis by simp
  next
    case (Inr c)
    with assms Cons show ?thesis by simp
  qed
qed

text \<open>
  C5. A file whose name starts neither with \<^verbatim>\<open>book\<close> nor with \<^verbatim>\<open>user_rating\<close> writes no
  row and no line of the log, but processing it does not complete without error: no
  branch of the loop gives \<^verbatim>\<open>type_label\<close> a value, so the message of line 82 raises
  \<^verbatim>\<open>UnboundLocalError\<close> (or the file raised before, while it was read). The function
  never returns a count for such a file.
\<close>

theorem unknown_file_raises:
  assumes "\<not> startswith f ''book''" and "\<not> startswith f ''user_rating''"
  shows "fst (process_single_file E f s) =
           (case List.find isl (read_csv E f) of
              None \<Rightarrow> Inl UnboundLocalError
            | Some x \<Rightarrow> Inl (projl x))
         \<and> books (snd (process_single_file E f s)) = books s
         \<and> ratings (snd (process_single_file E f s)) = ratings s
         \<and> log (snd (process_single_file E f s)) = log s"
  by (simp add: process_single_file_def try_body_def chunk_loop_unknown [OF assms]
        report_def connect_def close_def split: option.split)

theorem unknown_file_raises_witness:
  "\<not> startswith ''notes.csv'' ''book'' \<and> \<not> startswith ''notes.csv'' ''user_rating''
   \<and> fst (process_single_file
            (calm_env\<lparr>read_csv := \<lambda>f. [Inr \<lparr>columns = [''a'', ''b''], rows = [csv_row
               [(''a'', ''1''), (''b'', ''2'')]]\<rparr>]\<rparr>)
            ''notes.csv'' (init_schema empty_database))
     = Inl UnboundLocalError"
proof -
  have h1: "\<not> startswith ''notes.csv'' ''book''" by (simp add: startswith_def)
  have h2: "\<not> startswith ''notes.csv'' ''user_rating''" by (simp add: startswith_def)
  from unknown_file_raises [OF h1 h2,
      of "calm_env\<lparr>read_csv := \<lambda>f. [Inr \<lparr>columns = [''a'', ''b''], rows = [csv_row
               [(''a'', ''1''), (''b'', ''2'')]]\<rparr>]\<rparr>" "init_schema empty_database"]
  show ?thesis using h1 h2 by simp
qed

section \<open>The scenario of a book file\<close>

lemma chunks_of_single: "xs \<noteq> [] \<Longrightarrow> length xs \<le> n \<Longrightarrow> chunks_of n xs = [xs]"
proof -
  assume xs: "xs \<noteq> []" and n: "length xs \<le> n"
  then have "n \<noteq> 0" by (cases xs) auto
  moreover have "chunks_of n [] = []" by (subst chunks_of.simps) simp
  ultimately show ?thesis using xs n by (subst chunks_of.simps) simp
qed

text \<open>
  C8. The file \<^verbatim>\<open>book1-100k.csv\<close> with the three rows (1, Harry Potter, 4.5),
  (2, empty title, 3.0) and (abc, BadId, 2.0), read without an error into a store that
  accepts the write and holds no book, leaves exactly one stored book, with the title
  Harry Potter and the average rating 4.5. Its key is not 1: the row with \<^verbatim>\<open>abc\<close>
  makes the column \<^verbatim>\<open>Id\<close> of the chunk an object column, the coercion of line 58 turns
  it into floats, and the text stored as \<^verbatim>\<open>book_id\<close> is \<^verbatim>\<open>1.0\<close>.
\<close>

theorem book_scenario:
  assumes "read_csv E ''book1-100k.csv'' =
             map Inr (csv_chunks 100000 [''Id'', ''Name'', ''Rating'']
               [csv_row [(''Id'', ''1''), (''Name'', ''Harry Potter''), (''Rating'', ''4.5'')],
                csv_row [(''Id'', ''2''), (''Name'', ''''), (''Rating'', ''3.0'')],
                csv_row [(''Id'', ''abc''), (''Name'', ''BadId''), (''Rating'', ''2.0'')]])"
    and "\<not> store_fault E ''book1-100k.csv'' 0"
    and "books s = []"
  shows "books (snd (process_single_file E ''book1-100k.csv'' s)) =
           [\<lparr>book_id = Some ''1.0'', title = Some ''Harry Potter'',
             avg_rating = Some (Finite (9 / 2))\<rparr>]
         \<and> fst (process_single_file E ''book1-100k.csv'' s) =
           (if elapsed E ''book1-100k.csv'' = 0 then Inl ZeroDivisionError else Inr 1)"
proof -
  let ?rs = "[csv_row [(''Id'', ''1''), (''Name'', ''Harry Potter''), (''Rating'', ''4.5'')],
              csv_row [(''Id'', ''2''), (''Name'', ''''), (''Rating'', ''3.0'')],
              csv_row [(''Id'', ''abc''), (''Name'', ''BadId''), (''Rating'', ''2.0'')]]"
  have ch: "csv_chunks 100000 [''Id'', ''Name'', ''Rating''] ?rs =
      [\<lparr>columns = [''Id'', ''Name'', ''Rating''], rows = ?rs\<rparr>]"
    by (simp add: csv_chunks_def chunks_of_single)
  have m: "book_mapper \<lparr>columns = [''Id'', ''Name'', ''Rating''], rows = ?rs\<rparr> =
      Inr [\<lparr>book_id = Some ''1.0'', title = Some ''Harry Potter'',
             avg_rating = Some (Finite (9 / 2))\<rparr>]"
    by code_simp
  have sw: "startswith ''book1-100k.csv'' ''book''" by (simp add: startswith_def)
  have ii: "insert_ignore []
       [\<lparr>book_id = Some ''1.0'', title = Some ''Harry Potter'',
             avg_rating = Some (Finite (9 / 2))\<rparr>] =
       [\<lparr>book_id = Some ''1.0'', title = Some ''Harry Potter'',
             avg_rating = Some (Finite (9 / 2))\<rparr>]"
    by (simp add: insert_ignore_def insert_or_ignore_def)
  show ?thesis
    by (simp add: process_single_file_def try_body_def assms ch m sw to_sql_books_def
          connect_def close_def report_def ii)
qed

theorem book_scenario_witness:
  "books (snd (process_single_file
      (calm_env\<lparr>read_csv := \<lambda>f.
         map Inr (csv_chunks 100000 [''Id'', ''Name'', ''Rating'']
           [csv_row [(''Id'', ''1''), (''Name'', ''Harry Potter''), (''Rating'', ''4.5'')],
            csv_row [(''Id'', ''2''), (''Name'', ''''), (''Rating'', ''3.0'')],
            csv_row [(''Id'', ''abc''), (''Name'', ''BadId''), (''Rating'', ''2.0'')]])\<rparr>)
      ''book1-100k.csv'' (init_schema empty_database)))
   = [\<lparr>book_id = Some ''1.0'', title = Some ''Harry Potter'',
             avg_rating = Some (Finite (9 / 2))\<rparr>]"
proof -
  let ?E = "calm_env\<lparr>read_csv := \<lambda>f.
         map Inr (csv_chunks 100000 [''Id'', ''Name'', ''Rating'']
           [csv_row [(''Id'', ''1''), (''Name'', ''Harry Potter''), (''Rating'', ''4.5'')],
            csv_row [(''Id'', ''2''), (''Name'', ''''), (''Rating'', ''3.0'')],
            csv_row [(''Id'', ''abc''), (''Name'', ''BadId''), (''Rating'', ''2.0'')]])\<rparr>"
  have h1: "read_csv ?E ''book1-100k.csv'' =
             map Inr (csv_chunks 100000 [''Id'', ''Name'', ''Rating'']
               [csv_row [(''Id'', ''1''), (''Name'', ''Harry Potter''), (''Rating'', ''4.5'')],
                csv_row [(''Id'', ''2''), (''Name'', ''''), (''Rating'', ''3.0'')],
                csv_row [(''Id'', ''abc''), (''Name'', ''BadId''), (''Rating'', ''2.0'')]])"
    by simp
  have h2: "\<not> store_fault ?E ''book1-100k.csv'' 0" by (simp add: calm_env_def)
  have h3: "books (init_schema empty_database) = []"
    by (simp add: init_schema_def empty_database_def connect_def close_def
          create_table_if_not_exists_def)
  from book_scenario [OF h1 h2 h3] show ?thesis by (rule conjunct1)
qed

section \<open>Stored books are never removed or changed\<close>

lemma insert_or_ignore_prefix: "prefix tbl (insert_or_ignore tbl r)"
  by (simp add: insert_or_ignore_def split: option.split)

lemma insert_ignore_prefix: "prefix tbl (insert_ignore tbl xs)"
proof (induction xs arbitrary: tbl)
  case Nil
  show ?case by (simp add: insert_ignore_def)
next
  case (Cons x xs)
  have "prefix tbl (insert_or_ignore tbl x)" by (rule insert_or_ignore_prefix)
  also have "prefix (insert_or_ignore tbl x) (insert_ignore (insert_or_ignore tbl x) xs)"
    by (rule Cons)
  finally show ?case by (simp add: insert_ignore_def)
qed

lemma chunk_loop_books_prefix:
  "prefix (books s) (books (snd (chunk_loop E f k st t l s)))"
proof (induction st arbitrary: k t l s)
  case Nil
  show ?case by simp
next
  case (Cons x st)
  show ?case
  proof (cases x)
    case (Inl e)
    then show ?thesis by simp
  next
    case (Inr c)
    have b: "prefix (books s)
               (books (snd (chunk_loop E f k' st t' l'
                  (s\<lparr>books := insert_ignore (books s) clean\<rparr>))))" for k' t' l' clean
    proof -
      have "prefix (books s) (insert_ignore (books s) clean)"
        by (rule insert_ignore_prefix)
      also have "prefix (insert_ignore (books s) clean)
          (books (snd (chunk_loop E f k' st t' l'
             (s\<lparr>books := insert_ignore (books s) clean\<rparr>))))"
        using Cons [where s = "s\<lparr>books := insert_ignore (books s) clean\<rparr>"] by simp
      finally show ?thesis .
    qed
    have r: "prefix (books s)
               (books (snd (chunk_loop E f k' st t' l' (s\<lparr>ratings := new\<rparr>))))"
      for k' t' l' new
      using Cons [where s = "s\<lparr>ratings := new\<rparr>"] by simp
    show ?thesis
      using Inr b r Cons [where s = s]
      by (simp add: to_sql_books_def to_sql_ratings_def split: sum.split)
  qed
qed

lemma try_body_books:
  "books (snd (try_body E f s)) = books (snd (chunk_loop E f 0 (read_csv E f) 0 None s))
   \<and> ratings (snd (try_body E f s)) = ratings (snd (chunk_loop E f 0 (read_csv E f) 0 None s))"
proof -
  obtain r s' where loop: "chunk_loop E f 0 (read_csv E f) 0 None s = (r, s')"
    by (cases "chunk_loop E f 0 (read_csv E f) 0 None s")
  show ?thesis
  proof (cases r)
    case (Inl e)
    with loop show ?thesis by (simp add: try_body_def)
  next
    case (Inr p)
    with loop report_frame [of E f "fst p" "snd p" s'] show ?thesis
      by (cases p) (simp add: try_body_def)
  qed
qed

lemma process_single_file_books:
  "books (snd (process_single_file E f s))
     = books (snd (chunk_loop E f 0 (read_csv E f) 0 None (snd (connect s))))
   \<and> ratings (snd (process_single_file E f s))
     = ratings (snd (chunk_loop E f 0 (read_csv E f) 0 None (snd (connect s))))"
proof -
  obtain r s2 where body: "try_body E f (snd (connect s)) = (r, s2)"
    by (cases "try_body E f (snd (connect s))")
  have "process_single_file E f s = (r, close (opened s) s2)"
    using body by (simp add: process_single_file_def connect_def)
  with try_body_books [of E f "snd (connect s)"] body show ?thesis
    by (simp add: close_def)
qed

lemma process_single_file_books_prefix:
  "prefix (books s) (books (snd (process_single_file E f s)))"
  using chunk_loop_books_prefix [of "snd (connect s)" E f 0 "read_csv E f" 0 None]
  by (simp add: process_single_file_books connect_def)

lemma executor_map_books_prefix:
  "prefix (books s) (books (snd (executor_map (process_single_file E) fs s)))"
proof (induction fs arbitrary: s)
  case Nil
  show ?case by simp
next
  case (Cons f fs)
  obtain r s1 where one: "process_single_file E f s = (r, s1)"
    by (cases "process_single_file E f s")
  have "prefix (books s) (books s1)"
    using process_single_file_books_prefix [of s E f] one by simp
  also have "prefix (books s1) (books (snd (executor_map (process_single_file E) fs s1)))"
    by (rule Cons)
  finally show ?case using one by (simp add: case_prod_unfold)
qed

lemma run_production_etl_books:
  "books (snd (run_production_etl E d))
     = books (snd (executor_map (process_single_file E) (csv_files E) (init_schema d)))
   \<and> ratings (snd (run_production_etl E d))
     = ratings (snd (executor_map (process_single_file E) (csv_files E) (init_schema d)))"
  by (simp add: run_production_etl_def connect_def close_def create_index_if_not_exists_def
        Let_def split: prod.split)

lemma init_schema_tables:
  "books (init_schema d) = (case books_table d of None \<Rightarrow> [] | Some b \<Rightarrow> b)
   \<and> ratings (init_schema d) = []"
  by (simp add: init_schema_def connect_def close_def create_table_if_not_exists_def
        drop_and_create_def)

lemma append_ratings_truncate:
  "map rating_clean.truncate (append_ratings tbl cs) = map rating_clean.truncate tbl @ cs"
proof (induction cs arbitrary: tbl)
  case Nil
  show ?case by (simp add: append_ratings_def)
next
  case (Cons c cs)
  have "rating_clean.truncate (stored_rating n c) = c" for n
    by (simp add: stored_rating_def rating_clean.truncate_def)
  with Cons [of "append_rating tbl c"] show ?case
    by (simp add: append_ratings_def append_rating_def)
qed

section \<open>What a run stores in the ratings\<close>

lemma append_ratings_append:
  "append_ratings tbl (xs @ ys) = append_ratings (append_ratings tbl xs) ys"
  by (simp add: append_ratings_def)

lemma chunk_loop_ratings_book:
  assumes "startswith f ''book''"
  shows "ratings (snd (chunk_loop E f k st t l s)) = ratings s"
proof (induction st arbitrary: k t l s)
  case Nil
  show ?case by simp
next
  case (Cons x st)
  show ?case
  proof (cases x)
    case (Inl e)
    then show ?thesis by simp
  next
    case (Inr c)
    with assms show ?thesis
      by (simp add: Cons to_sql_books_def split: sum.split)
  qed
qed

lemma chunk_loop_ratings_written:
  assumes "\<not> startswith f ''book''" and "startswith f ''user_rating''"
  shows "map rating_clean.truncate (ratings (snd (chunk_loop E f k st t l s)))
       = map rating_clean.truncate (ratings s) @ rating_chunks_written E f k st"
proof (induction st arbitrary: k t l s)
  case Nil
  show ?case by simp
next
  case (Cons x st)
  show ?case
  proof (cases x)
    case (Inl e)
    then show ?thesis by simp
  next
    case (Inr c)
    with assms show ?thesis
      by (simp add: Cons to_sql_ratings_def append_ratings_truncate split: sum.split)
  qed
qed

lemma process_single_file_ratings:
  "map rating_clean.truncate (ratings (snd (process_single_file E f s)))
     = map rating_clean.truncate (ratings s) @ ratings_written E f"
proof -
  consider (book) "startswith f ''book''"
    | (rating) "\<not> startswith f ''book''" "startswith f ''user_rating''"
    | (other) "\<not> startswith f ''book''" "\<not> startswith f ''user_rating''" by blast
  then show ?thesis
  proof cases
    case book
    then show ?thesis
      by (simp add: process_single_file_books chunk_loop_ratings_book ratings_written_def
            connect_def)
  next
    case rating
    then show ?thesis
      by (simp add: process_single_file_books chunk_loop_ratings_written ratings_written_def
            connect_def)
  next
    case other
    then show ?thesis
      by (simp add: process_single_file_books chunk_loop_unknown ratings_written_def
            connect_def)
  qed
qed

lemma executor_map_ratings:
  "map rating_clean.truncate (ratings (snd (executor_map (process_single_file E) fs s)))
     = map rating_clean.truncate (ratings s) @ concat (map (ratings_written E) fs)"
proof (induction fs arbitrary: s)
  case Nil
  show ?case by simp
next
  case (Cons f fs)
  show ?case
    by (simp add: case_prod_unfold Cons process_single_file_ratings)
qed

section \<open>The schema at the start of a run\<close>

text \<open>
  C6. At the start of a run the books table is created only when it is absent: the
  rows that a previous run left are kept, and they are still the first rows of the
  table when the run ends. The ratings table starts empty whatever the previous run
  left, so the run does not depend on the old ratings. Within a run every write to the
  ratings is an append: processing a file leaves the rows that were there, followed by
  the rows of the chunks that the file wrote, and at the end of the run the table
  holds, in the order of the files, every row that every file wrote, repeated rows
  included, and nothing else.
\<close>

theorem schema_policy:
  "books (init_schema d) = (case books_table d of None \<Rightarrow> [] | Some b \<Rightarrow> b)
   \<and> prefix (books (init_schema d)) (books (snd (run_production_etl E d)))
   \<and> ratings (init_schema d) = []
   \<and> run_production_etl E (d\<lparr>ratings_table := old\<rparr>) = run_production_etl E d
   \<and> map rating_clean.truncate (ratings (snd (process_single_file E f s)))
       = map rating_clean.truncate (ratings s) @ ratings_written E f
   \<and> map rating_clean.truncate (ratings (snd (run_production_etl E d)))
       = concat (map (ratings_written E) (csv_files E))
   \<and> map rating_clean.truncate (append_ratings tbl cs) = map rating_clean.truncate tbl @ cs
   \<and> length (append_ratings tbl cs) = length tbl + length cs"
proof -
  have i: "init_schema (d\<lparr>ratings_table := old\<rparr>) = init_schema d"
    by (simp add: init_schema_def drop_and_create_def)
  have r: "run_production_etl E (d\<lparr>ratings_table := old\<rparr>) = run_production_etl E d"
    by (simp add: run_production_etl_def i)
  have p: "prefix (books (init_schema d)) (books (snd (run_production_etl E d)))"
    by (simp add: run_production_etl_books executor_map_books_prefix)
  have l: "length (append_ratings tbl cs) = length tbl + length cs"
    using arg_cong [OF append_ratings_truncate [of tbl cs], of length] by simp
  have w: "map rating_clean.truncate (ratings (snd (run_production_etl E d)))
       = concat (map (ratings_written E) (csv_files E))"
    by (simp add: run_production_etl_books executor_map_ratings init_schema_tables)
  show ?thesis
    using init_schema_tables [of d] r p l w append_ratings_truncate [of tbl cs]
      process_single_file_ratings [of E f s]
    by simp
qed

text \<open>
  Two rating files with the same pair of user and title: both rows are stored, under
  the keys 1 and 2.
\<close>

lemma repeated_pairs_persist:
  "ratings (snd (run_production_etl
      (calm_env\<lparr>listdir := [''user_rating_a.csv'', ''user_rating_b.csv''],
         read_csv := \<lambda>f. [Inr \<lparr>columns = [''ID'', ''Name'', ''Rating''],
           rows = [csv_row [(''ID'', ''u1''), (''Name'', ''Dune''),
                            (''Rating'', ''it was ok'')]]\<rparr>]\<rparr>)
      empty_database))
   = [\<lparr>book_title = Some ''Dune'', user_id = Some ''u1'', rating_text = Some ''it was ok'',
       rating_int = 2, rating_id = 1\<rparr>,
      \<lparr>book_title = Some ''Dune'', user_id = Some ''u1'', rating_text = Some ''it was ok'',
       rating_int = 2, rating_id = 2\<rparr>]"
  by code_simp

section \<open>First write wins\<close>

lemma insert_or_ignore_known:
  "book_id r \<noteq> None \<Longrightarrow> book_id r \<in> set (map book_id tbl) \<Longrightarrow> insert_or_ignore tbl r = tbl"
  by (auto simp: insert_or_ignore_def split: option.split)

lemma insert_ignore_known:
  "list_all (\<lambda>r. book_id r \<noteq> None \<and> book_id r \<in> set (map book_id tbl)) xs
     \<Longrightarrow> insert_ignore tbl xs = tbl"
proof (induction xs)
  case Nil
  show ?case by (simp add: insert_ignore_def)
next
  case (Cons x xs)
  then have "insert_or_ignore tbl x = tbl" by (simp add: insert_or_ignore_known)
  with Cons show ?case by (simp add: insert_ignore_def)
qed

lemma insert_or_ignore_filter:
  "Some k \<in> set (map book_id tbl) \<Longrightarrow>
     filter (\<lambda>r. book_id r = Some k) (insert_or_ignore tbl x)
       = filter (\<lambda>r. book_id r = Some k) tbl"
  by (auto simp: insert_or_ignore_def split: option.split)

lemma insert_ignore_filter:
  "Some k \<in> set (map book_id tbl) \<Longrightarrow>
     filter (\<lambda>r. book_id r = Some k) (insert_ignore tbl xs)
       = filter (\<lambda>r. book_id r = Some k) tbl"
proof (induction xs arbitrary: tbl)
  case Nil
  show ?case by (simp add: insert_ignore_def)
next
  case (Cons x xs)
  from Cons.prems insert_or_ignore_prefix [of tbl x]
  have "Some k \<in> set (map book_id (insert_or_ignore tbl x))"
    by (auto simp: prefix_def)
  from Cons.IH [OF this] insert_or_ignore_filter [OF Cons.prems, of x]
  show ?case by (simp add: insert_ignore_def)
qed

lemma insert_ignore_ids:
  "set (map book_id xs) \<subseteq> set (map book_id (insert_ignore tbl xs))"
proof (induction xs arbitrary: tbl)
  case Nil
  show ?case by simp
next
  case (Cons x xs)
  have "book_id x \<in> set (map book_id (insert_or_ignore tbl x))"
    by (auto simp: insert_or_ignore_def split: option.split)
  moreover have "set (map book_id (insert_or_ignore tbl x))
      \<subseteq> set (map book_id (insert_ignore (insert_or_ignore tbl x) xs))"
    using insert_ignore_prefix [of "insert_or_ignore tbl x" xs] by (auto simp: prefix_def)
  ultimately show ?case using Cons [of "insert_or_ignore tbl x"]
    by (auto simp: insert_ignore_def)
qed

lemma prefix_ids: "prefix xs ys \<Longrightarrow> set (map book_id xs) \<subseteq> set (map book_id ys)"
  by (auto simp: prefix_def)

text \<open>
  A second pass over the chunks of a file, from a state that already holds every
  identifier that a first pass has stored, leaves the books as they are.
\<close>

lemma chunk_loop_second_pass:
  "set (map book_id (books (snd (chunk_loop E f k st t l s)))) \<subseteq> set (map book_id (books s2))
     \<Longrightarrow> books (snd (chunk_loop E f k st t2 l2 s2)) = books s2"
proof (induction st arbitrary: k t l s t2 l2 s2)
  case Nil
  show ?case by simp
next
  case (Cons x st)
  show ?case
  proof (cases x)
    case (Inl e)
    then show ?thesis by simp
  next
    case x: (Inr c)
    consider (book) "startswith f ''book''"
      | (rating) "\<not> startswith f ''book''" "startswith f ''user_rating''"
      | (other) "\<not> startswith f ''book''" "\<not> startswith f ''user_rating''" by blast
    then show ?thesis
    proof cases
      case book
      show ?thesis
      proof (cases "has_columns c [''Id'', ''Rating'', ''Name''] \<and> \<not> store_fault E f k")
        case False
        with x book show ?thesis
          by (auto simp: book_mapper_def to_sql_books_def)
      next
        case True
        let ?clean = "book_rows c"
        let ?s' = "s\<lparr>books := insert_ignore (books s) ?clean\<rparr>"
        have first: "chunk_loop E f k (x # st) t l s =
            chunk_loop E f (Suc k) st (t + length ?clean) (Some ''books'') ?s'"
          using x book True by (simp add: book_mapper_def to_sql_books_def)
        have "set (map book_id ?clean) \<subseteq> set (map book_id (books ?s'))"
          using insert_ignore_ids [of ?clean "books s"] by simp
        also have "\<dots> \<subseteq> set (map book_id (books (snd
            (chunk_loop E f (Suc k) st (t + length ?clean) (Some ''books'') ?s'))))"
          by (rule prefix_ids) (rule chunk_loop_books_prefix)
        also have "\<dots> \<subseteq> set (map book_id (books s2))"
          using Cons.prems by (simp only: first)
        finally have known: "set (map book_id ?clean) \<subseteq> set (map book_id (books s2))" .
        have "list_all (\<lambda>r. book_id r \<noteq> None \<and> book_id r \<in> set (map book_id (books s2)))
            ?clean"
          using known book_rows_notna [of _ c] by (auto simp: list_all_iff)
        then have same: "insert_ignore (books s2) ?clean = books s2"
          by (rule insert_ignore_known)
        have second: "chunk_loop E f k (x # st) t2 l2 s2 =
            chunk_loop E f (Suc k) st (t2 + length ?clean) (Some ''books'') s2"
          using x book True by (simp add: book_mapper_def to_sql_books_def same)
        have "books (snd (chunk_loop E f (Suc k) st (t2 + length ?clean) (Some ''books'') s2))
            = books s2"
          using Cons.prems by (intro Cons.IH [where s = ?s']) (simp only: first)
        then show ?thesis by (simp only: second)
      qed
    next
      case rating
      show ?thesis
      proof (cases "rating_mapper c")
        case (Inl e)
        with x rating show ?thesis by simp
      next
        case m: (Inr clean)
        show ?thesis
        proof (cases "store_fault E f k")
          case True
          with x rating m show ?thesis by (simp add: to_sql_ratings_def)
        next
          case False
          let ?s' = "s\<lparr>ratings := append_ratings (ratings s) clean\<rparr>"
          let ?s2' = "s2\<lparr>ratings := append_ratings (ratings s2) clean\<rparr>"
          have first: "chunk_loop E f k (x # st) t l s =
              chunk_loop E f (Suc k) st (t + length clean) (Some ''ratings'') ?s'"
            using x rating m False by (simp add: to_sql_ratings_def)
          have second: "chunk_loop E f k (x # st) t2 l2 s2 =
              chunk_loop E f (Suc k) st (t2 + length clean) (Some ''ratings'') ?s2'"
            using x rating m False by (simp add: to_sql_ratings_def)
          have "books (snd (chunk_loop E f (Suc k) st (t2 + length clean) (Some ''ratings'')
              ?s2')) = books ?s2'"
            using Cons.prems by (intro Cons.IH [where s = ?s']) (simp add: first)
          then show ?thesis by (simp add: second)
        qed
      qed
    next
      case other
      have "books (snd (chunk_loop E f (Suc k) st t2 l2 s2)) = books s2"
        using Cons.prems x other by (intro Cons.IH [where s = s and t = t and l = l]) simp
      with x other show ?thesis by simp
    qed
  qed
qed

lemma process_single_file_second_pass:
  assumes "set (map book_id (books (snd (process_single_file E f s))))
             \<subseteq> set (map book_id (books s2))"
  shows "books (snd (process_single_file E f s2)) = books s2"
proof -
  have "books (snd (chunk_loop E f 0 (read_csv E f) 0 None (snd (connect s2))))
      = books (snd (connect s2))"
    using assms
    by (intro chunk_loop_second_pass [where s = "snd (connect s)" and t = 0 and l = None])
      (simp add: process_single_file_books connect_def)
  then show ?thesis by (simp add: process_single_file_books connect_def)
qed

lemma executor_map_second_pass:
  "set (map book_id (books (snd (executor_map (process_single_file E) fs s))))
     \<subseteq> set (map book_id (books s2))
   \<Longrightarrow> books (snd (executor_map (process_single_file E) fs s2)) = books s2"
proof (induction fs arbitrary: s s2)
  case Nil
  show ?case by simp
next
  case (Cons f fs)
  let ?s1 = "snd (process_single_file E f s)"
  let ?t1 = "snd (process_single_file E f s2)"
  have step: "snd (executor_map (process_single_file E) (f # fs) u)
      = snd (executor_map (process_single_file E) fs (snd (process_single_file E f u)))" for u
    by (simp add: case_prod_unfold)
  have "set (map book_id (books ?s1))
      \<subseteq> set (map book_id (books (snd (executor_map (process_single_file E) fs ?s1))))"
    by (rule prefix_ids) (rule executor_map_books_prefix)
  also have "\<dots> \<subseteq> set (map book_id (books s2))"
    using Cons.prems by (simp only: step)
  finally have one: "books ?t1 = books s2"
    by (rule process_single_file_second_pass)
  have "books (snd (executor_map (process_single_file E) fs ?t1)) = books ?t1"
    using Cons.prems by (intro Cons.IH [where s = ?s1]) (simp only: step one)
  then show ?case by (simp only: step one)
qed

text \<open>
  Every relation between the books before and after that is reflexive and transitive
  and holds for \<^verbatim>\<open>insert_ignore\<close> holds for the loop, for a file and for a whole run.
\<close>

lemma chunk_loop_books_rel:
  assumes refl: "\<And>a. R a a" and trans: "\<And>a b c. R a b \<Longrightarrow> R b c \<Longrightarrow> R a c"
    and ins: "\<And>a xs. R a (insert_ignore a xs)"
  shows "R (books s) (books (snd (chunk_loop E f k st t l s)))"
proof (induction st arbitrary: k t l s)
  case Nil
  show ?case by (simp add: refl)
next
  case (Cons x st)
  show ?case
  proof (cases x)
    case (Inl e)
    then show ?thesis by (simp add: refl)
  next
    case (Inr c)
    have b: "R (books s)
               (books (snd (chunk_loop E f k' st t' l'
                  (s\<lparr>books := insert_ignore (books s) clean\<rparr>))))" for k' t' l' clean
    proof -
      have "R (insert_ignore (books s) clean)
          (books (snd (chunk_loop E f k' st t' l'
             (s\<lparr>books := insert_ignore (books s) clean\<rparr>))))"
        using Cons [where s = "s\<lparr>books := insert_ignore (books s) clean\<rparr>"] by simp
      with ins [of "books s" clean] show ?thesis by (rule trans)
    qed
    have r: "R (books s)
               (books (snd (chunk_loop E f k' st t' l' (s\<lparr>ratings := new\<rparr>))))"
      for k' t' l' new
      using Cons [where s = "s\<lparr>ratings := new\<rparr>"] by simp
    show ?thesis
      using Inr b r Cons [where s = s]
      by (simp add: to_sql_books_def to_sql_ratings_def refl split: sum.split)
  qed
qed

lemma executor_map_books_rel:
  assumes refl: "\<And>a. R a a" and trans: "\<And>a b c. R a b \<Longrightarrow> R b c \<Longrightarrow> R a c"
    and ins: "\<And>a xs. R a (insert_ignore a xs)"
  shows "R (books s) (books (snd (executor_map (process_single_file E) fs s)))"
proof (induction fs arbitrary: s)
  case Nil
  show ?case by (simp add: refl)
next
  case (Cons f fs)
  have "R (books (snd (connect s)))
      (books (snd (chunk_loop E f 0 (read_csv E f) 0 None (snd (connect s)))))"
    by (rule chunk_loop_books_rel [of R, OF refl trans ins])
  then have "R (books s) (books (snd (process_single_file E f s)))"
    by (simp add: process_single_file_books connect_def)
  from trans [OF this Cons [of "snd (process_single_file E f s)"]]
  show ?case by (simp add: case_prod_unfold)
qed

lemma run_keeps_identifier:
  assumes "Some k \<in> set (map book_id (books (init_schema d)))"
  shows "filter (\<lambda>r. book_id r = Some k) (books (snd (run_production_etl E d)))
       = filter (\<lambda>r. book_id r = Some k) (books (init_schema d))"
proof -
  let ?R = "\<lambda>a b. prefix a b \<and>
      (Some k \<in> set (map book_id a) \<longrightarrow>
        filter (\<lambda>r. book_id r = Some k) b = filter (\<lambda>r. book_id r = Some k) a)"
  have refl: "?R a a" for a by simp
  have trans: "?R a b \<Longrightarrow> ?R b c \<Longrightarrow> ?R a c" for a b c
    using prefix_ids [of a b] by (auto intro: prefix_order.trans)
  have ins: "?R a (insert_ignore a xs)" for a xs
    by (simp add: insert_ignore_prefix insert_ignore_filter)
  have "?R (books (init_schema d))
      (books (snd (executor_map (process_single_file E) (csv_files E) (init_schema d))))"
    by (rule executor_map_books_rel [of ?R, OF refl trans ins])
  with assms show ?thesis by (simp add: run_production_etl_books)
qed

lemma rerun_books:
  "books (snd (run_production_etl E (database_of (snd (run_production_etl E d)))))
     = books (snd (run_production_etl E d))"
proof -
  let ?s1 = "snd (run_production_etl E d)"
  have start: "books (init_schema (database_of ?s1)) = books ?s1"
    by (simp add: init_schema_tables database_of_def)
  have "books (snd (executor_map (process_single_file E) (csv_files E)
      (init_schema (database_of ?s1)))) = books (init_schema (database_of ?s1))"
    by (rule executor_map_second_pass [where s = "init_schema d"])
      (simp add: start run_production_etl_books)
  then show ?thesis by (simp add: run_production_etl_books start)
qed

text \<open>
  What holds of every stored key. Let the books table hold exactly one row with the
  key k. Then an insert of any rows leaves the rows with that key as they are and
  their number stays 1; the table before is the beginning of the table after; a whole
  run leaves the rows with that key as they are. Processing a file a second time
  leaves the books as the first time left them, and so does a second run over the same
  folder.
\<close>

lemma key_first_write_wins:
  assumes "length (filter (\<lambda>r. book_id r = Some k) tbl) = 1"
  shows "insert_or_ignore tbl (r\<lparr>book_id := Some k\<rparr>) = tbl
         \<and> filter (\<lambda>r. book_id r = Some k) (insert_ignore tbl xs)
           = filter (\<lambda>r. book_id r = Some k) tbl
         \<and> length (filter (\<lambda>r. book_id r = Some k) (insert_ignore tbl xs)) = 1
         \<and> prefix tbl (insert_ignore tbl xs)
         \<and> filter (\<lambda>r. book_id r = Some k)
             (books (snd (run_production_etl E (d\<lparr>books_table := Some tbl\<rparr>))))
           = filter (\<lambda>r. book_id r = Some k) tbl
         \<and> books (snd (process_single_file E f (snd (process_single_file E f s))))
           = books (snd (process_single_file E f s))
         \<and> books (snd (run_production_etl E (database_of (snd (run_production_etl E d)))))
           = books (snd (run_production_etl E d))"
proof -
  have "filter (\<lambda>r. book_id r = Some k) tbl \<noteq> []"
    using assms by auto
  then obtain x where "x \<in> set tbl" and "book_id x = Some k"
    by (auto simp: filter_empty_conv)
  then have mem: "Some k \<in> set (map book_id tbl)"
    by force
  have a: "insert_or_ignore tbl (r\<lparr>book_id := Some k\<rparr>) = tbl"
    using mem by (simp add: insert_or_ignore_known)
  have b: "filter (\<lambda>r. book_id r = Some k) (insert_ignore tbl xs)
      = filter (\<lambda>r. book_id r = Some k) tbl"
    using mem by (rule insert_ignore_filter)
  have i: "books (init_schema (d\<lparr>books_table := Some tbl\<rparr>)) = tbl"
    by (simp add: init_schema_tables)
  have c: "filter (\<lambda>r. book_id r = Some k)
        (books (snd (run_production_etl E (d\<lparr>books_table := Some tbl\<rparr>))))
      = filter (\<lambda>r. book_id r = Some k) tbl"
    using run_keeps_identifier [of k "d\<lparr>books_table := Some tbl\<rparr>" E] mem
    by (simp only: i)
  have e: "books (snd (process_single_file E f (snd (process_single_file E f s))))
      = books (snd (process_single_file E f s))"
    by (rule process_single_file_second_pass [where s = s]) simp
  show ?thesis
    using a b c e assms insert_ignore_prefix [of tbl xs] rerun_books [of E d]
    by simp
qed

text \<open>
  C3. The key of the books table is the text that SQLite makes of the bound
  identifier, and that text depends on the chunk the row came in: an identifier from a
  chunk whose \<^verbatim>\<open>Id\<close> column is all integers is stored by its digits, the same
  identifier from a chunk with a missing or non-numeric \<^verbatim>\<open>Id\<close> is stored as a float.
  So a later insert with the same identifier is not always dropped: with
  \<^verbatim>\<open>book1.csv\<close> holding (1, A, 4) and (abc, X, 3), and \<^verbatim>\<open>book2.csv\<close> holding
  (1, B, 2), a run stores the identifier 1 twice, under the keys \<^verbatim>\<open>1.0\<close> and \<^verbatim>\<open>1\<close>.
  Without the row (abc, X, 3) the second insert is dropped.
\<close>

theorem same_identifier_stored_twice:
  "books (snd (run_production_etl
      (calm_env\<lparr>listdir := [''book1.csv'', ''book2.csv''],
         read_csv := \<lambda>f.
           if f = ''book1.csv''
           then [Inr \<lparr>columns = [''Id'', ''Name'', ''Rating''],
                   rows = [csv_row [(''Id'', ''1''), (''Name'', ''A''), (''Rating'', ''4'')],
                           csv_row [(''Id'', ''abc''), (''Name'', ''X''), (''Rating'', ''3'')]]\<rparr>]
           else [Inr \<lparr>columns = [''Id'', ''Name'', ''Rating''],
                   rows = [csv_row [(''Id'', ''1''), (''Name'', ''B''), (''Rating'', ''2'')]]\<rparr>]\<rparr>)
      empty_database))
   = [\<lparr>book_id = Some ''1.0'', title = Some ''A'', avg_rating = Some (Finite 4)\<rparr>,
      \<lparr>book_id = Some ''1'', title = Some ''B'', avg_rating = Some (Finite 2)\<rparr>]
   \<and> books (snd (run_production_etl
      (calm_env\<lparr>listdir := [''book1.csv'', ''book2.csv''],
         read_csv := \<lambda>f.
           if f = ''book1.csv''
           then [Inr \<lparr>columns = [''Id'', ''Name'', ''Rating''],
                   rows = [csv_row [(''Id'', ''1''), (''Name'', ''A''), (''Rating'', ''4'')]]\<rparr>]
           else [Inr \<lparr>columns = [''Id'', ''Name'', ''Rating''],
                   rows = [csv_row [(''Id'', ''1''), (''Name'', ''B''), (''Rating'', ''2'')]]\<rparr>]\<rparr>)
      empty_database))
   = [\<lparr>book_id = Some ''1'', title = Some ''A'', avg_rating = Some (Finite 4)\<rparr>]"
  by code_simp

section \<open>Workers that raise\<close>

lemma chunk_loop_label:
  "fst (chunk_loop E f k st t l s) = Inr (t', l') \<Longrightarrow>
     l' = l \<or> l' = Some (if startswith f ''book'' then ''books'' else ''ratings'')"
proof (induction st arbitrary: k t l s)
  case Nil
  then show ?case by simp
next
  case (Cons x st)
  show ?case
  proof (cases x)
    case (Inl e)
    with Cons.prems show ?thesis by simp
  next
    case (Inr c)
    with Cons.prems show ?thesis
      by (auto simp: to_sql_books_def to_sql_ratings_def
            split: if_splits sum.splits dest!: Cons.IH)
  qed
qed

lemma process_single_file_log:
  "log (snd (process_single_file E f s)) =
     log s @ (case fst (process_single_file E f s) of
                Inl e \<Rightarrow> []
              | Inr n \<Rightarrow>
                  [Processed n (if startswith f ''book'' then ''books'' else ''ratings'') f])"
proof -
  let ?s1 = "s\<lparr>connections := opened s # connections s, opened := Suc (opened s)\<rparr>"
  obtain r s' where loop: "chunk_loop E f 0 (read_csv E f) 0 None ?s1 = (r, s')"
    by (cases "chunk_loop E f 0 (read_csv E f) 0 None ?s1")
  from chunk_loop_frame [of E f 0 "read_csv E f" 0 None ?s1] loop
  have l: "log s' = log s" by simp
  show ?thesis
  proof (cases r)
    case (Inl e)
    with loop l show ?thesis
      by (simp add: process_single_file_def connect_def try_body_def close_def)
  next
    case (Inr p)
    obtain t' l' where p: "p = (t', l')" by (cases p)
    from chunk_loop_label [of E f 0 "read_csv E f" 0 None ?s1 t' l'] loop Inr p
    have "l' = None \<or> l' = Some (if startswith f ''book'' then ''books'' else ''ratings'')"
      by simp
    with loop Inr p l show ?thesis
      by (auto simp: process_single_file_def connect_def try_body_def close_def report_def)
  qed
qed

lemma executor_map_length:
  "length (fst (executor_map g fs s)) = length fs"
  by (induction fs arbitrary: s) (simp_all add: case_prod_unfold)

lemma executor_map_log:
  "log (snd (executor_map (process_single_file E) fs s)) =
     log s @ concat (map (\<lambda>(f, r). case r of
                            Inl e \<Rightarrow> []
                          | Inr n \<Rightarrow>
                              [Processed n
                                 (if startswith f ''book'' then ''books'' else ''ratings'') f])
                       (zip fs (fst (executor_map (process_single_file E) fs s))))"
proof (induction fs arbitrary: s)
  case Nil
  show ?case by simp
next
  case (Cons f fs)
  show ?case
    by (simp add: case_prod_unfold Cons process_single_file_log split: sum.split)
qed

text \<open>
  C10. Whatever the workers do, the run goes on to the indexes and the counts: the two
  indexes exist at the end, the counts are those of the two tables, and the log ends
  with the closing line. There is one result for each file; the results are not read.
  The log holds one line for each file whose worker returned and nothing for a file
  whose worker raised, and the insights of the run hold the two counts only.
\<close>

theorem worker_errors_discarded:
  "length (fst (executor_map (process_single_file E) (csv_files E) (init_schema d)))
     = length (csv_files E)
   \<and> log (snd (run_production_etl E d)) =
       concat (map (\<lambda>(f, r). case r of
                       Inl e \<Rightarrow> []
                     | Inr n \<Rightarrow>
                         [Processed n
                            (if startswith f ''book'' then ''books'' else ''ratings'') f])
                 (zip (csv_files E)
                    (fst (executor_map (process_single_file E) (csv_files E)
                            (init_schema d)))))
       @ [EtlComplete]
   \<and> ''idx_book_title'' \<in> set (indexes (snd (run_production_etl E d)))
   \<and> ''idx_rating_title'' \<in> set (indexes (snd (run_production_etl E d)))
   \<and> fst (run_production_etl E d) =
       \<lparr>books_count = length (books (snd (run_production_etl E d))),
        ratings_count = length (ratings (snd (run_production_etl E d)))\<rparr>"
proof -
  let ?x = "executor_map (process_single_file E) (csv_files E) (init_schema d)"
  have l0: "log (init_schema d) = []"
    by (simp add: init_schema_def connect_def close_def)
  have lg: "log (snd (run_production_etl E d)) = log (snd ?x) @ [EtlComplete]"
    by (simp add: run_production_etl_def connect_def close_def
          create_index_if_not_exists_def Let_def case_prod_unfold)
  have ix: "''idx_book_title'' \<in> set (indexes (snd (run_production_etl E d)))
      \<and> ''idx_rating_title'' \<in> set (indexes (snd (run_production_etl E d)))"
    by (simp add: run_production_etl_def connect_def close_def
          create_index_if_not_exists_def Let_def case_prod_unfold)
  have ct: "fst (run_production_etl E d) =
       \<lparr>books_count = length (books (snd (run_production_etl E d))),
        ratings_count = length (ratings (snd (run_production_etl E d)))\<rparr>"
    by (simp add: run_production_etl_def connect_def close_def
          create_index_if_not_exists_def Let_def case_prod_unfold)
  show ?thesis
    using ix ct by (simp add: lg executor_map_log l0 executor_map_length)
qed

text \<open>
  A run over a folder with a file that raises and a file that is stored: the run ends,
  the log has the line of the second file only.
\<close>

lemma run_with_failing_worker:
  "fst (run_production_etl
      (calm_env\<lparr>listdir := [''notes.csv'', ''book1.csv''],
         read_csv := \<lambda>f. [Inr \<lparr>columns = [''Id'', ''Name'', ''Rating''],
           rows = [csv_row [(''Id'', ''1''), (''Name'', ''Dune''), (''Rating'', ''4'')]]\<rparr>]\<rparr>)
      empty_database)
     = \<lparr>books_count = 1, ratings_count = 0\<rparr>
   \<and> log (snd (run_production_etl
      (calm_env\<lparr>listdir := [''notes.csv'', ''book1.csv''],
         read_csv := \<lambda>f. [Inr \<lparr>columns = [''Id'', ''Name'', ''Rating''],
           rows = [csv_row [(''Id'', ''1''), (''Name'', ''Dune''), (''Rating'', ''4'')]]\<rparr>]\<rparr>)
      empty_database))
     = [Processed 1 ''books'' ''book1.csv'', EtlComplete]
   \<and> fst (executor_map (process_single_file
      (calm_env\<lparr>listdir := [''notes.csv'', ''book1.csv''],
         read_csv := \<lambda>f. [Inr \<lparr>columns = [''Id'', ''Name'', ''Rating''],
           rows = [csv_row [(''Id'', ''1''), (''Name'', ''Dune''), (''Rating'', ''4'')]]\<rparr>]\<rparr>))
      [''book1.csv'', ''notes.csv''] (init_schema empty_database))
     = [Inr 1, Inl UnboundLocalError]"
  by code_simp

end
